theory Spec2Isabelle
  imports Complex_Main
begin

section \<open>Data model\<close>

text \<open>
  The repository holds three revisions of the same server: \<^verbatim>\<open>src/src/server.ts\<close> contains
  two of them one after the other (lines 1-197 and lines 198-449), and
  \<^verbatim>\<open>src/unnamed/part_000\<close> is the third. They are called here
  \<^item> v1: \<^verbatim>\<open>server.ts\<close> lines 1-197 (history capacity 30, per-address debounce, backfill
    on the first connection that finds the history empty);
  \<^item> v2: \<^verbatim>\<open>part_000\<close> (the trade logic of v1, plus an external transaction store that is
    what a new client is sent; no debounce);
  \<^item> v3: \<^verbatim>\<open>server.ts\<close> lines 198-449 (history capacity 100, the external stream feeds
    the history, the history is written to a file, backfill merges at startup).

  A JavaScript \<^verbatim>\<open>number\<close> that holds an amount is modelled as an exact rational. The source
  computes \<^verbatim>\<open>parseFloat(ethers.formatUnits(raw, d))\<close>, the double nearest to \<open>raw / 10 ^ d\<close>;
  that double is zero exactly when \<open>raw\<close> is zero and positive exactly when \<open>raw\<close> is, which
  is all that the program itself looks at.

  One record holds a trade of any revision: v1 and v2 have no \<^verbatim>\<open>source\<close>, \<^verbatim>\<open>ticker\<close> and
  \<^verbatim>\<open>image\<close> fields (they are \<open>None\<close> there), and v3 declares \<^verbatim>\<open>buyer\<close> and \<^verbatim>\<open>seller\<close>
  optional.
\<close>

record Trade =
  hash :: string
  time :: string
  buyer :: "string option"
  seller :: "string option"
  amount :: rat
  bnbAmount :: rat
  action :: string
  source :: "string option"
  ticker :: "string option"
  image' :: "string option"

text \<open>
  The arguments of the \<^verbatim>\<open>Swap\<close> event as ethers hands them to a listener or returns them from
  \<^verbatim>\<open>decodeEventLog\<close>: the four \<^verbatim>\<open>uint\<close> amounts are bigints that are never negative.
\<close>

record SwapArgs =
  sender :: string
  amount0In :: nat
  amount1In :: nat
  amount0Out :: nat
  amount1Out :: nat
  to' :: string

text \<open>
  The exact quotient \<open>v / 10 ^ d\<close>, standing for \<^verbatim>\<open>parseFloat(ethers.formatUnits(v, d))\<close>, which
  is the double nearest to it. The two can differ in value; they agree on being zero and on
  being positive, and the statements about the decoder rest on these two tests only.
\<close>

definition formatUnits :: "nat \<Rightarrow> nat \<Rightarrow> rat" where
  "formatUnits v d = of_nat v / 10 ^ d"

section \<open>The live decoder (the callback of \<^verbatim>\<open>attachSwapListener\<close>)\<close>

text \<open>
  The classification of the callback (its \<^verbatim>\<open>if\<close> / \<^verbatim>\<open>else if\<close> / \<^verbatim>\<open>else\<close>): the values it gives
  to \<^verbatim>\<open>ocicatRaw\<close>, \<^verbatim>\<open>bnbRaw\<close> and \<^verbatim>\<open>action\<close>, all three still bigints and a string, or
  \<open>None\<close> for the \<^verbatim>\<open>return\<close> of the last branch.
\<close>

definition classifySwap :: "SwapArgs \<Rightarrow> (nat \<times> nat \<times> string) option" where
  "classifySwap ev =
    (if 0 < amount1Out ev then Some (amount1Out ev, amount0In ev, ''buy'')
     else if 0 < amount1In ev then Some (amount1In ev, amount0Out ev, ''sell'')
     else None)"

text \<open>
  The callback up to the call of \<^verbatim>\<open>emitNewTrade\<close>: \<open>None\<close> is one of its two early
  \<^verbatim>\<open>return\<close>s. \<open>now\<close> is \<^verbatim>\<open>new Date().toISOString()\<close>, \<open>txHash\<close> is
  \<^verbatim>\<open>event?.log?.transactionHash\<close> (\<open>None\<close> when any link of the chain is missing).
  The callbacks of v1 and v2 are the same text; v3 adds the field \<^verbatim>\<open>source: "ocicat"\<close>, so the
  value of that field is the parameter \<open>src\<close>.
\<close>

definition swapTrade :: "string option \<Rightarrow> string \<Rightarrow> string option \<Rightarrow> SwapArgs \<Rightarrow> Trade option" where
  "swapTrade src now txHash ev =
    (case classifySwap ev of
       None \<Rightarrow> None
     | Some (ocicatRaw, bnbRaw, act) \<Rightarrow>
         (let ocicatAmount = formatUnits ocicatRaw 6;
              bnbAmount = formatUnits bnbRaw 18
          in if ocicatAmount = 0 \<or> bnbAmount = 0 then None
             else Some \<lparr>hash = (case txHash of None \<Rightarrow> ''unknown'' | Some h \<Rightarrow> h),
                        time = now,
                        buyer = Some (sender ev),
                        seller = Some (to' ev),
                        amount = ocicatAmount,
                        bnbAmount = bnbAmount,
                        action = act,
                        source = src,
                        ticker = None,
                        image' = None\<rparr>))"

definition swapTrade_v1 :: "string \<Rightarrow> string option \<Rightarrow> SwapArgs \<Rightarrow> Trade option" where
  "swapTrade_v1 = swapTrade None"

definition swapTrade_v3 :: "string \<Rightarrow> string option \<Rightarrow> SwapArgs \<Rightarrow> Trade option" where
  "swapTrade_v3 = swapTrade (Some ''ocicat'')"

section \<open>Backfill (\<^verbatim>\<open>fetchInitialTrades\<close>)\<close>

text \<open>
  What can go wrong inside \<^verbatim>\<open>fetchInitialTrades\<close>; its \<^verbatim>\<open>try\<close>/\<^verbatim>\<open>catch\<close> turns each of them into
  a logged message.
\<close>

datatype error =
    QueryFailed       \<comment> \<open>\<^verbatim>\<open>getBlockNumber\<close> or \<^verbatim>\<open>getLogs\<close> rejects\<close>
  | DecodeFailed      \<comment> \<open>\<^verbatim>\<open>iface.decodeEventLog\<close> throws\<close>
  | ReferenceError    \<comment> \<open>a \<^verbatim>\<open>const\<close> binding is read before it is initialised\<close>

text \<open>
  A log as \<^verbatim>\<open>getLogs\<close> returns it. \<open>args\<close> is what \<^verbatim>\<open>iface.decodeEventLog("Swap", log.data,
  log.topics)\<close> gives for it, \<open>None\<close> when that call throws.
\<close>

record Log =
  blockNumber :: int
  transactionIndex :: int
  transactionHash :: string
  args :: "SwapArgs option"

text \<open>The comparator handed to \<^verbatim>\<open>logs.sort\<close>.\<close>

definition compareLogs :: "Log \<Rightarrow> Log \<Rightarrow> int" where
  "compareLogs a b =
    (if blockNumber a \<noteq> blockNumber b then blockNumber b - blockNumber a
     else transactionIndex b - transactionIndex a)"

text \<open>
  \<^verbatim>\<open>Array.prototype.sort\<close> is a stable sort: with a consistent comparator its result is the
  one of a stable insertion sort.
\<close>

fun insertLog :: "Log \<Rightarrow> Log list \<Rightarrow> Log list" where
  "insertLog x [] = [x]"
| "insertLog x (y # ys) = (if compareLogs x y \<le> 0 then x # y # ys else y # insertLog x ys)"

definition sortLogs :: "Log list \<Rightarrow> Log list" where
  "sortLogs logs = foldr insertLog logs []"

text \<open>\<^verbatim>\<open>Array.prototype.map\<close> with a callback that may throw: the first exception ends it.\<close>

fun mapE :: "('a \<Rightarrow> error + 'b) \<Rightarrow> 'a list \<Rightarrow> error + 'b list" where
  "mapE f [] = Inr []"
| "mapE f (x # xs) =
    (case f x of
       Inl e \<Rightarrow> Inl e
     | Inr y \<Rightarrow> (case mapE f xs of Inl e \<Rightarrow> Inl e | Inr ys \<Rightarrow> Inr (y # ys)))"

text \<open>The callback of \<^verbatim>\<open>sortedLogs.slice(0, 30).map\<close> in v1 and v2, applied to the log \<open>lg\<close>.\<close>

definition initialTrade :: "string \<Rightarrow> Log \<Rightarrow> error + Trade" where
  "initialTrade now lg =
    (case args lg of
       None \<Rightarrow> Inl DecodeFailed
     | Some decoded \<Rightarrow>
         (let amountOutBN = amount1Out decoded;
              amountInBN = amount0In decoded
          in Inr \<lparr>hash = transactionHash lg,
                  time = now,
                  buyer = Some (sender decoded),
                  seller = Some (to' decoded),
                  amount = formatUnits amountOutBN 6,
                  bnbAmount = formatUnits amountInBN 18,
                  action = (if 0 < amountOutBN then ''buy'' else ''sell''),
                  source = None,
                  ticker = None,
                  image' = None\<rparr>))"

text \<open>
  The same callback in v3. Between the decoding and the \<^verbatim>\<open>return\<close> it evaluates
  \<^verbatim>\<open>initialTrades.length\<close> (line 395) for a log message. \<open>initialTrades\<close> is the state of that
  binding when the callback runs: \<open>None\<close> while it is not initialised, and then reading it
  throws a ReferenceError.
\<close>

definition initialTrade_v3 :: "Trade list option \<Rightarrow> string \<Rightarrow> Log \<Rightarrow> error + Trade" where
  "initialTrade_v3 initialTrades now lg =
    (case args lg of
       None \<Rightarrow> Inl DecodeFailed
     | Some decoded \<Rightarrow>
         (let amountOutBN = amount1Out decoded;
              amountInBN = amount0In decoded
          in case initialTrades of
               None \<Rightarrow> Inl ReferenceError
             | Some _ \<Rightarrow>
                 Inr \<lparr>hash = transactionHash lg,
                      time = now,
                      buyer = Some (sender decoded),
                      seller = Some (to' decoded),
                      amount = formatUnits amountOutBN 6,
                      bnbAmount = formatUnits amountInBN 18,
                      action = (if 0 < amountOutBN then ''buy'' else ''sell''),
                      source = Some ''ocicat'',
                      ticker = None,
                      image' = None\<rparr>))"

section \<open>The server state and what is sent to clients\<close>

text \<open>
  A transaction of the external stream: any field may be missing (\<^verbatim>\<open>undefined\<close> or \<^verbatim>\<open>null\<close>,
  which \<^verbatim>\<open>??\<close> treats alike).
\<close>

record TokenDetails =
  td_ticker :: "string option"
  td_image :: "string option"

record ExternalTx =
  tx_hash :: "string option"
  wallet :: "string option"
  amountInToken :: "rat option"
  amountInChainCurrency :: "rat option"
  tx_type :: "string option"
  tokenDetails :: "TokenDetails option"

datatype payload =
    TradeList "Trade list"
  | OneTrade Trade
  | TxList "ExternalTx list"
  | OneTx ExternalTx

text \<open>A message is a socket.io event name and its payload.\<close>

type_synonym message = "string \<times> payload"

text \<open>A client socket: \<^verbatim>\<open>socket.id\<close> and \<^verbatim>\<open>socket.handshake.address\<close>.\<close>

record Socket =
  sid :: nat
  address :: string

text \<open>
  The module's variables and the part of socket.io's state the handlers act on:
  \<^item> \<open>tradeBuffer\<close>, \<open>clientLastRequest\<close> (v1), \<open>transactionStore\<close> (v2);
  \<^item> \<open>tradesFile\<close>: the contents of \<^verbatim>\<open>trades.json\<close> (v3), \<open>None\<close> when there is no file;
  \<^item> \<open>sockets\<close>: the ids of the sockets connected to the namespace;
  \<^item> \<open>sent\<close>: the messages delivered to each socket, oldest first;
  \<^item> \<open>awaiting\<close>: the sockets whose \<^verbatim>\<open>connection\<close> handler (v1) is suspended in
    \<^verbatim>\<open>await fetchInitialTrades()\<close>.
\<close>

record server =
  tradeBuffer :: "Trade list"
  clientLastRequest :: "string \<Rightarrow> int option"
  transactionStore :: "ExternalTx list"
  tradesFile :: "Trade list option"
  sockets :: "nat list"
  sent :: "nat \<Rightarrow> message list"
  awaiting :: "nat list"

text \<open>\<^verbatim>\<open>io.emit\<close>: to every connected socket.\<close>

definition io_emit :: "message \<Rightarrow> server \<Rightarrow> server" where
  "io_emit m s = s\<lparr>sent := (\<lambda>i. if i \<in> set (sockets s) then sent s i @ [m] else sent s i)\<rparr>"

text \<open>\<^verbatim>\<open>socket.emit\<close>: to that socket; a packet for a socket that has gone is dropped.\<close>

definition socket_emit :: "nat \<Rightarrow> message \<Rightarrow> server \<Rightarrow> server" where
  "socket_emit i m s =
    (if i \<in> set (sockets s) then s\<lparr>sent := (sent s)(i := sent s i @ [m])\<rparr> else s)"

section \<open>Revision v1 (\<^verbatim>\<open>server.ts\<close>, lines 1-197)\<close>

definition emitNewTrade_v1 :: "Trade \<Rightarrow> server \<Rightarrow> server" where
  "emitNewTrade_v1 trade s =
    (let buf = trade # tradeBuffer s;
         buf' = (if 30 < length buf then take 30 buf else buf)
     in io_emit (''trades'', OneTrade trade) (s\<lparr>tradeBuffer := buf'\<rparr>))"

definition swapListener_v1 :: "string \<Rightarrow> string option \<Rightarrow> SwapArgs \<Rightarrow> server \<Rightarrow> server" where
  "swapListener_v1 now txHash ev s =
    (case swapTrade_v1 now txHash ev of
       None \<Rightarrow> s
     | Some trade \<Rightarrow> emitNewTrade_v1 trade s)"

text \<open>
  \<^verbatim>\<open>fetchInitialTrades\<close> from the point where its two queries have settled: \<open>result\<close> is
  \<open>Inl\<close> when one of them rejected, and the logs of the blocks \<^verbatim>\<open>currentBlock - 500\<close> to
  \<^verbatim>\<open>currentBlock\<close> otherwise (\<^verbatim>\<open>iface.getEvent("Swap")\<close> finds the event, which the ABI
  declares). The rest of the function runs without interruption. Every failure ends in the
  \<^verbatim>\<open>catch\<close>, which leaves the state as it is.
\<close>

definition fetchInitialTrades_v1 :: "string \<Rightarrow> error + Log list \<Rightarrow> server \<Rightarrow> server" where
  "fetchInitialTrades_v1 now result s =
    (case result of
       Inl e \<Rightarrow> s
     | Inr logs \<Rightarrow>
         (case mapE (initialTrade now) (take 30 (sortLogs logs)) of
            Inl e \<Rightarrow> s
          | Inr trades \<Rightarrow> s\<lparr>tradeBuffer := trades\<rparr>))"

text \<open>
  The \<^verbatim>\<open>connection\<close> handler up to its \<^verbatim>\<open>await\<close>. socket.io adds a socket to the namespace
  before it calls the handler, so from then on \<^verbatim>\<open>io.emit\<close> reaches it; \<open>now\<close> is
  \<^verbatim>\<open>Date.now()\<close>. \<^verbatim>\<open>socket.disconnect(true)\<close> closes the connection, which takes the socket
  out of the namespace again. When the history is empty the handler suspends, and the socket
  is noted in \<open>awaiting\<close>.
\<close>

definition connection_v1 :: "Socket \<Rightarrow> int \<Rightarrow> server \<Rightarrow> server" where
  "connection_v1 socket now s0 =
    (let s = s0\<lparr>sockets := sockets s0 @ [sid socket]\<rparr>;
         ip = address socket
     in if now - (case clientLastRequest s ip of None \<Rightarrow> 0 | Some t \<Rightarrow> t) < 5000
        then s\<lparr>sockets := removeAll (sid socket) (sockets s)\<rparr>
        else (let s1 = s\<lparr>clientLastRequest := (clientLastRequest s)(ip \<mapsto> now)\<rparr>
              in if length (tradeBuffer s1) = 0
                 then s1\<lparr>awaiting := awaiting s1 @ [sid socket]\<rparr>
                 else socket_emit (sid socket) (''trades'', TradeList (tradeBuffer s1)) s1))"

text \<open>
  The rest of the handler of socket \<open>i\<close>, run when the queries of its
  \<^verbatim>\<open>fetchInitialTrades\<close> have settled.
\<close>

definition connection_v1_resume :: "nat \<Rightarrow> string \<Rightarrow> error + Log list \<Rightarrow> server \<Rightarrow> server" where
  "connection_v1_resume i now result s =
    (if i \<in> set (awaiting s)
     then (let s1 = fetchInitialTrades_v1 now result (s\<lparr>awaiting := remove1 i (awaiting s)\<rparr>)
           in socket_emit i (''trades'', TradeList (tradeBuffer s1)) s1)
     else s)"

section \<open>Revision v2 (\<^verbatim>\<open>part_000\<close>)\<close>

text \<open>
  \<^verbatim>\<open>emitNewTrade\<close>, \<^verbatim>\<open>attachSwapListener\<close> and \<^verbatim>\<open>fetchInitialTrades\<close> are those of v1. The
  external stream fills \<^verbatim>\<open>transactionStore\<close>, and that store is what a new client is sent.
\<close>

definition transactions_new_v2 :: "ExternalTx \<Rightarrow> server \<Rightarrow> server" where
  "transactions_new_v2 tx s =
    (let store = tx # transactionStore s;
         store' = (if 100 < length store then take 100 store else store)
     in io_emit (''transaction:new'', OneTx tx) (s\<lparr>transactionStore := store'\<rparr>))"

definition connection_v2 :: "Socket \<Rightarrow> server \<Rightarrow> server" where
  "connection_v2 socket s0 =
    (let s = s0\<lparr>sockets := sockets s0 @ [sid socket]\<rparr>
     in socket_emit (sid socket) (''transaction:history'', TxList (transactionStore s)) s)"

section \<open>Revision v3 (\<^verbatim>\<open>server.ts\<close>, lines 198-449)\<close>

text \<open>
  The file store: \<^verbatim>\<open>saveTradesToFile\<close> overwrites \<^verbatim>\<open>trades.json\<close> with the trades it is given,
  \<^verbatim>\<open>loadTradesFromFile\<close> reads what the file holds, or nothing when there is no file.
\<close>

definition saveTradesToFile :: "Trade list \<Rightarrow> server \<Rightarrow> server" where
  "saveTradesToFile trades s = s\<lparr>tradesFile := Some trades\<rparr>"

definition loadTradesFromFile :: "Trade list option \<Rightarrow> Trade list" where
  "loadTradesFromFile file = (case file of Some data \<Rightarrow> data | None \<Rightarrow> [])"

text \<open>The normalisation of an external transaction into a trade.\<close>

definition externalTrade :: "string \<Rightarrow> ExternalTx \<Rightarrow> Trade" where
  "externalTrade now tx =
    \<lparr>hash = (case tx_hash tx of None \<Rightarrow> ''unknown'' | Some h \<Rightarrow> h),
     time = now,
     buyer = Some (case wallet tx of None \<Rightarrow> ''unknown'' | Some w \<Rightarrow> w),
     seller = Some '''',
     amount = (case amountInToken tx of None \<Rightarrow> 0 | Some a \<Rightarrow> a),
     bnbAmount = (case amountInChainCurrency tx of None \<Rightarrow> 0 | Some a \<Rightarrow> a),
     action = (case tx_type tx of None \<Rightarrow> ''buy'' | Some a \<Rightarrow> a),
     source = Some ''external'',
     ticker = Some (case tokenDetails tx of
                      None \<Rightarrow> ''Unknown''
                    | Some d \<Rightarrow> (case td_ticker d of None \<Rightarrow> ''Unknown'' | Some x \<Rightarrow> x)),
     image' = Some (case tokenDetails tx of
                      None \<Rightarrow> ''/default_token.png''
                    | Some d \<Rightarrow> (case td_image d of None \<Rightarrow> ''/default_token.png'' | Some x \<Rightarrow> x))\<rparr>"

definition transactions_new_v3 :: "string \<Rightarrow> ExternalTx \<Rightarrow> server \<Rightarrow> server" where
  "transactions_new_v3 now tx s =
    (let trade = externalTrade now tx;
         buf = trade # tradeBuffer s;
         buf' = (if 100 < length buf then take 100 buf else buf)
     in io_emit (''transaction:new'', OneTrade trade)
          (saveTradesToFile buf' (s\<lparr>tradeBuffer := buf'\<rparr>)))"

definition connection_v3 :: "Socket \<Rightarrow> server \<Rightarrow> server" where
  "connection_v3 socket s0 =
    (let s = s0\<lparr>sockets := sockets s0 @ [sid socket]\<rparr>
     in socket_emit (sid socket) (''transaction:history'', TradeList (tradeBuffer s)) s)"

definition emitNewTrade_v3 :: "Trade \<Rightarrow> server \<Rightarrow> server" where
  "emitNewTrade_v3 trade0 s =
    (let trade = trade0\<lparr>source := Some ''ocicat'', ticker := Some ''OCICAT'',
                        image' := Some ''/cat_bg.jpg''\<rparr>;
         buf = trade # tradeBuffer s;
         buf' = (if 100 < length buf then take 100 buf else buf)
     in io_emit (''trades'', OneTrade trade)
          (saveTradesToFile buf' (s\<lparr>tradeBuffer := buf'\<rparr>)))"

definition swapListener_v3 :: "string \<Rightarrow> string option \<Rightarrow> SwapArgs \<Rightarrow> server \<Rightarrow> server" where
  "swapListener_v3 now txHash ev s =
    (case swapTrade_v3 now txHash ev of
       None \<Rightarrow> s
     | Some trade \<Rightarrow> emitNewTrade_v3 trade s)"

text \<open>Lines 410-411: the merge of the decoded trades into the history.\<close>

definition mergeInitial :: "Trade list \<Rightarrow> server \<Rightarrow> server" where
  "mergeInitial initialTrades s =
    (let buf = take 100 (initialTrades @ tradeBuffer s)
     in saveTradesToFile buf (s\<lparr>tradeBuffer := buf\<rparr>))"

text \<open>
  \<^verbatim>\<open>fetchInitialTrades\<close> of v3, from the point where its queries have settled. The callback
  runs inside the initialiser of \<^verbatim>\<open>const initialTrades\<close>, so the binding it reads is not
  initialised yet.
\<close>

definition fetchInitialTrades_v3 :: "string \<Rightarrow> error + Log list \<Rightarrow> server \<Rightarrow> server" where
  "fetchInitialTrades_v3 now result s =
    (case result of
       Inl e \<Rightarrow> s
     | Inr logs \<Rightarrow>
         (case mapE (initialTrade_v3 None now) (take 30 (sortLogs logs)) of
            Inl e \<Rightarrow> s
          | Inr initialTrades \<Rightarrow> mergeInitial initialTrades s))"

section \<open>Runs\<close>

text \<open>
  What can happen to the server: an event of the pair contract, a transaction of the external
  stream, a client connecting, the queries of a \<^verbatim>\<open>fetchInitialTrades\<close> settling (for the
  handler of a socket in v1, for the call at startup in v2 and v3), a client going away.
\<close>

datatype event =
    Swap string "string option" SwapArgs
  | TransactionsNew string ExternalTx
  | Connection Socket int
  | Fetched nat string "error + Log list"
  | Disconnect nat

definition disconnect :: "nat \<Rightarrow> server \<Rightarrow> server" where
  "disconnect i s = s\<lparr>sockets := removeAll i (sockets s)\<rparr>"

fun step_v1 :: "event \<Rightarrow> server \<Rightarrow> server" where
  "step_v1 (Swap now txHash ev) s = swapListener_v1 now txHash ev s"
| "step_v1 (TransactionsNew now tx) s = s"
| "step_v1 (Connection socket now) s = connection_v1 socket now s"
| "step_v1 (Fetched i now result) s = connection_v1_resume i now result s"
| "step_v1 (Disconnect i) s = disconnect i s"

fun step_v2 :: "event \<Rightarrow> server \<Rightarrow> server" where
  "step_v2 (Swap now txHash ev) s = swapListener_v1 now txHash ev s"
| "step_v2 (TransactionsNew now tx) s = transactions_new_v2 tx s"
| "step_v2 (Connection socket now) s = connection_v2 socket s"
| "step_v2 (Fetched i now result) s = fetchInitialTrades_v1 now result s"
| "step_v2 (Disconnect i) s = disconnect i s"

fun step_v3 :: "event \<Rightarrow> server \<Rightarrow> server" where
  "step_v3 (Swap now txHash ev) s = swapListener_v3 now txHash ev s"
| "step_v3 (TransactionsNew now tx) s = transactions_new_v3 now tx s"
| "step_v3 (Connection socket now) s = connection_v3 socket s"
| "step_v3 (Fetched i now result) s = fetchInitialTrades_v3 now result s"
| "step_v3 (Disconnect i) s = disconnect i s"

definition run :: "(event \<Rightarrow> server \<Rightarrow> server) \<Rightarrow> server \<Rightarrow> event list \<Rightarrow> server" where
  "run step s es = foldl (\<lambda>s e. step e s) s es"

text \<open>
  The state when the module has been loaded. \<open>file\<close> is what \<^verbatim>\<open>trades.json\<close> holds then, for
  v3; v1 and v2 have no file and start from \<open>init None\<close>.
  Modelled from the spec: the array \<^verbatim>\<open>transactionStore\<close> of v2 is declared in
  \<^verbatim>\<open>store/transactions.js\<close>, which is not among the sources; it is the in-memory store of
  the external transactions and is taken to be empty at the start.
\<close>

definition init :: "Trade list option \<Rightarrow> server" where
  "init file =
    \<lparr>tradeBuffer = loadTradesFromFile file,
     clientLastRequest = (\<lambda>ip. None),
     transactionStore = [],
     tradesFile = file,
     sockets = [],
     sent = (\<lambda>i. []),
     awaiting = []\<rparr>"

section \<open>The upstream connection\<close>

text \<open>
  Providers are numbered in the order in which they are constructed. The state holds the
  provider the variable \<^verbatim>\<open>provider\<close> refers to, how many have been constructed, the providers
  on whose websocket the \<^verbatim>\<open>close\<close> handler is registered, the providers whose contract has the
  \<^verbatim>\<open>Swap\<close> listener attached, and the delays of the pending \<^verbatim>\<open>setTimeout\<close> calls.
\<close>

record upstream =
  provider :: nat
  constructed :: nat
  closeHandlers :: "nat list"
  swapListeners :: "nat list"
  timers :: "nat list"

text \<open>The state after the module has been loaded: provider 0, its listener, its handler.\<close>

definition upstream_init :: upstream where
  "upstream_init =
    \<lparr>provider = 0, constructed = 1, closeHandlers = [0], swapListeners = [0], timers = []\<rparr>"

datatype upstream_event =
    WsClose nat       \<comment> \<open>the websocket of that provider emits \<^verbatim>\<open>close\<close>\<close>
  | TimerFires        \<comment> \<open>the oldest pending timeout expires\<close>

text \<open>
  The \<^verbatim>\<open>close\<close> handler sets a timeout of 3000 ms; its callback constructs a provider and a
  contract, assigns them to the two variables and attaches the \<^verbatim>\<open>Swap\<close> listener.
\<close>

fun upstream_step :: "upstream_event \<Rightarrow> upstream \<Rightarrow> upstream" where
  "upstream_step (WsClose p) u =
    (if p \<in> set (closeHandlers u) then u\<lparr>timers := timers u @ [3000]\<rparr> else u)"
| "upstream_step TimerFires u =
    (case timers u of
       [] \<Rightarrow> u
     | d # ds \<Rightarrow>
         u\<lparr>timers := ds,
           provider := constructed u,
           constructed := Suc (constructed u),
           swapListeners := swapListeners u @ [constructed u]\<rparr>)"

definition upstream_run :: "upstream \<Rightarrow> upstream_event list \<Rightarrow> upstream" where
  "upstream_run u es = foldl (\<lambda>u e. upstream_step e u) u es"

section \<open>Notions used in the statements\<close>

text \<open>Both amounts of a trade are strictly positive.\<close>

definition positive :: "Trade \<Rightarrow> bool" where
  "positive t = (0 < amount t \<and> 0 < bnbAmount t)"

text \<open>
  Concrete inputs: a buy of 120.5 tokens for 0.003 BNB, a sale of 5 tokens for 1 BNB, a swap
  that moves no token, a swap that gives out one unit of the token for no BNB, the log of
  the sale, and an external transaction without \<^verbatim>\<open>amountInToken\<close>.
\<close>

definition buyArgs :: SwapArgs where
  "buyArgs = \<lparr>sender = ''0xrouter'', amount0In = 3000000000000000, amount1In = 0,
              amount0Out = 0, amount1Out = 120500000, to' = ''0xalice''\<rparr>"

definition sellArgs :: SwapArgs where
  "sellArgs = \<lparr>sender = ''0xrouter'', amount0In = 0, amount1In = 5000000,
               amount0Out = 1000000000000000000, amount1Out = 0, to' = ''0xbob''\<rparr>"



definition sellLog :: Log where
  "sellLog = \<lparr>blockNumber = 100, transactionIndex = 7, transactionHash = ''0xfeed'',
              args = Some sellArgs\<rparr>"

definition txNoAmount :: ExternalTx where
  "txNoAmount = \<lparr>tx_hash = Some ''0xbeef'', wallet = Some ''0xcarol'', amountInToken = None,
                 amountInChainCurrency = Some 1, tx_type = Some ''buy'', tokenDetails = None\<rparr>"

definition buyTrade :: Trade where
  "buyTrade = \<lparr>hash = ''unknown'', time = ''t'', buyer = Some ''0xrouter'',
      seller = Some ''0xalice'', amount = 241 / 2, bnbAmount = 3 / 1000, action = ''buy'',
      source = None, ticker = None, image' = None\<rparr>"

text \<open>Two sockets of one origin.\<close>

definition sockA :: Socket where
  "sockA = \<lparr>sid = 1, address = ''10.0.0.1''\<rparr>"

definition sockB :: Socket where
  "sockB = \<lparr>sid = 2, address = ''10.0.0.1''\<rparr>"

text \<open>
  An attach is accepted when the socket is still connected once its \<^verbatim>\<open>connection\<close> handler
  has run (up to its \<^verbatim>\<open>await\<close>), and rejected when the handler has closed it.
\<close>

definition accepted :: "Socket \<Rightarrow> server \<Rightarrow> bool" where
  "accepted socket s = (sid socket \<in> set (sockets s))"

text \<open>
  The attaches that v1 accepts in the course of a run, oldest first, each with its origin and
  its time.
\<close>

fun new_attach :: "server \<Rightarrow> event \<Rightarrow> (string \<times> int) list" where
  "new_attach s (Connection socket now) =
    (if accepted socket (connection_v1 socket now s) then [(address socket, now)] else [])"
| "new_attach s e = []"

fun accepted_attaches :: "server \<Rightarrow> event list \<Rightarrow> (string \<times> int) list" where
  "accepted_attaches s [] = []"
| "accepted_attaches s (e # es) = new_attach s e @ accepted_attaches (step_v1 e s) es"

text \<open>The event is an attach from origin \<open>ip\<close> less than 5000 ms after \<open>t\<close>.\<close>

fun attach_within :: "string \<Rightarrow> int \<Rightarrow> event \<Rightarrow> bool" where
  "attach_within ip t (Connection socket now) = (address socket = ip \<and> now - t < 5000)"
| "attach_within ip t e = False"

text \<open>A live message: it carries exactly one trade.\<close>

definition isLive :: "message \<Rightarrow> bool" where
  "isLive m = (case snd m of OneTrade t \<Rightarrow> True | _ \<Rightarrow> False)"

text \<open>
  The event is not the connection of socket \<open>i\<close> (socket.io gives every connection an id of
  its own), respectively not the settling of the backfill that the handler of socket \<open>i\<close>
  awaits.
\<close>

fun not_connection_of :: "nat \<Rightarrow> event \<Rightarrow> bool" where
  "not_connection_of i (Connection socket now) = (sid socket \<noteq> i)"
| "not_connection_of i e = True"

fun not_fetched_for :: "nat \<Rightarrow> event \<Rightarrow> bool" where
  "not_fetched_for i (Fetched j now result) = (j \<noteq> i)"
| "not_fetched_for i e = True"

section \<open>Basic facts\<close>

lemma formatUnits_eq_0 [simp]: "formatUnits v d = 0 \<longleftrightarrow> v = 0"
  by (simp add: formatUnits_def)

lemma formatUnits_pos [simp]: "0 < formatUnits v d \<longleftrightarrow> 0 < v"
  by (simp add: formatUnits_def zero_less_divide_iff)

text \<open>The decoder, branch by branch.\<close>

lemma swapTrade_cases:
  "swapTrade src now h ev =
    (if 0 < amount1Out ev then
       (if amount0In ev = 0 then None
        else Some \<lparr>hash = (case h of None \<Rightarrow> ''unknown'' | Some x \<Rightarrow> x), time = now,
                   buyer = Some (sender ev), seller = Some (to' ev),
                   amount = formatUnits (amount1Out ev) 6,
                   bnbAmount = formatUnits (amount0In ev) 18,
                   action = ''buy'', source = src, ticker = None, image' = None\<rparr>)
     else if 0 < amount1In ev then
       (if amount0Out ev = 0 then None
        else Some \<lparr>hash = (case h of None \<Rightarrow> ''unknown'' | Some x \<Rightarrow> x), time = now,
                   buyer = Some (sender ev), seller = Some (to' ev),
                   amount = formatUnits (amount1In ev) 6,
                   bnbAmount = formatUnits (amount0Out ev) 18,
                   action = ''sell'', source = src, ticker = None, image' = None\<rparr>)
     else None)"
  by (simp add: swapTrade_def classifySwap_def Let_def)

lemma swapTrade_positive: "swapTrade src now h ev = Some t \<Longrightarrow> positive t"
  by (auto simp: swapTrade_cases positive_def split: if_splits)

lemma saveTradesToFile_proj [simp]:
  "tradeBuffer (saveTradesToFile ts s) = tradeBuffer s"
  "clientLastRequest (saveTradesToFile ts s) = clientLastRequest s"
  "transactionStore (saveTradesToFile ts s) = transactionStore s"
  "tradesFile (saveTradesToFile ts s) = Some ts"
  "sockets (saveTradesToFile ts s) = sockets s"
  "awaiting (saveTradesToFile ts s) = awaiting s"
  "sent (saveTradesToFile ts s) = sent s"
  by (simp_all add: saveTradesToFile_def)

lemma io_emit_proj [simp]:
  "tradeBuffer (io_emit m s) = tradeBuffer s"
  "clientLastRequest (io_emit m s) = clientLastRequest s"
  "transactionStore (io_emit m s) = transactionStore s"
  "tradesFile (io_emit m s) = tradesFile s"
  "sockets (io_emit m s) = sockets s"
  "awaiting (io_emit m s) = awaiting s"
  "sent (io_emit m s) i = (if i \<in> set (sockets s) then sent s i @ [m] else sent s i)"
  by (simp_all add: io_emit_def)

lemma socket_emit_proj [simp]:
  "tradeBuffer (socket_emit i m s) = tradeBuffer s"
  "clientLastRequest (socket_emit i m s) = clientLastRequest s"
  "transactionStore (socket_emit i m s) = transactionStore s"
  "tradesFile (socket_emit i m s) = tradesFile s"
  "sockets (socket_emit i m s) = sockets s"
  "awaiting (socket_emit i m s) = awaiting s"
  "sent (socket_emit i m s) j =
     (if j = i \<and> i \<in> set (sockets s) then sent s i @ [m] else sent s j)"
  by (simp_all add: socket_emit_def)

lemma tradeBuffer_emitNewTrade_v1 [simp]:
  "tradeBuffer (emitNewTrade_v1 t s) = take 30 (t # tradeBuffer s)"
  by (simp add: emitNewTrade_v1_def Let_def)

lemma tradeBuffer_emitNewTrade_v3 [simp]:
  "tradeBuffer (emitNewTrade_v3 t s) =
     take 100 (t\<lparr>source := Some ''ocicat'', ticker := Some ''OCICAT'',
                 image' := Some ''/cat_bg.jpg''\<rparr> # tradeBuffer s)"
  by (simp add: emitNewTrade_v3_def Let_def)

lemma tradeBuffer_transactions_new_v3 [simp]:
  "tradeBuffer (transactions_new_v3 now tx s) = take 100 (externalTrade now tx # tradeBuffer s)"
  by (simp add: transactions_new_v3_def Let_def)

lemma tradeBuffer_mergeInitial [simp]:
  "tradeBuffer (mergeInitial ts s) = take 100 (ts @ tradeBuffer s)"
  by (simp add: mergeInitial_def Let_def)

lemma mapE_length: "mapE f xs = Inr ys \<Longrightarrow> length ys = length xs"
  by (induction xs arbitrary: ys) (auto split: sum.splits)

lemma run_Nil [simp]: "run step s [] = s"
  by (simp add: run_def)

lemma run_Cons [simp]: "run step s (e # es) = run step (step e s) es"
  by (simp add: run_def)

section \<open>The bound on the history\<close>

lemma tradeBuffer_fetch_v1:
  "tradeBuffer (fetchInitialTrades_v1 now r s) = tradeBuffer s
   \<or> length (tradeBuffer (fetchInitialTrades_v1 now r s)) \<le> 30"
  by (auto simp: fetchInitialTrades_v1_def split: sum.splits dest!: mapE_length)

lemma tradeBuffer_fetch_v3:
  "tradeBuffer (fetchInitialTrades_v3 now r s) = tradeBuffer s
   \<or> length (tradeBuffer (fetchInitialTrades_v3 now r s)) \<le> 100"
  by (auto simp: fetchInitialTrades_v3_def split: sum.splits)

lemma step_v1_bound:
  assumes "length (tradeBuffer s) \<le> 30"
  shows "length (tradeBuffer (step_v1 e s)) \<le> 30"
proof (cases e)
  case (Swap now h ev)
  then show ?thesis using assms by (simp add: swapListener_v1_def split: option.splits)
next
  case (Connection sock now)
  then show ?thesis using assms by (simp add: connection_v1_def Let_def)
next
  case (Fetched i now r)
  have "tradeBuffer (fetchInitialTrades_v1 now r (s\<lparr>awaiting := remove1 i (awaiting s)\<rparr>))
          = tradeBuffer s
    \<or> length (tradeBuffer (fetchInitialTrades_v1 now r (s\<lparr>awaiting := remove1 i (awaiting s)\<rparr>)))
          \<le> 30"
    using tradeBuffer_fetch_v1[of now r "s\<lparr>awaiting := remove1 i (awaiting s)\<rparr>"] by simp
  then show ?thesis using Fetched assms by (auto simp: connection_v1_resume_def Let_def)
qed (use assms in \<open>simp_all add: disconnect_def\<close>)

lemma step_v2_bound:
  assumes "length (tradeBuffer s) \<le> 30"
  shows "length (tradeBuffer (step_v2 e s)) \<le> 30"
proof (cases e)
  case (Swap now h ev)
  then show ?thesis using assms by (simp add: swapListener_v1_def split: option.splits)
next
  case (Fetched i now r)
  then show ?thesis using assms tradeBuffer_fetch_v1[of now r s] by auto
qed (use assms in \<open>simp_all add: disconnect_def connection_v2_def transactions_new_v2_def Let_def\<close>)

lemma step_v3_bound:
  assumes "length (tradeBuffer s) \<le> 100"
  shows "length (tradeBuffer (step_v3 e s)) \<le> 100"
proof (cases e)
  case (Swap now h ev)
  then show ?thesis using assms by (simp add: swapListener_v3_def split: option.splits)
next
  case (Fetched i now r)
  then show ?thesis using assms tradeBuffer_fetch_v3[of now r s] by auto
qed (use assms in \<open>simp_all add: disconnect_def connection_v3_def Let_def\<close>)

lemma run_v1_bound:
  "length (tradeBuffer s) \<le> 30 \<Longrightarrow> length (tradeBuffer (run step_v1 s es)) \<le> 30"
  by (induction es arbitrary: s) (simp_all add: step_v1_bound)

lemma run_v2_bound:
  "length (tradeBuffer s) \<le> 30 \<Longrightarrow> length (tradeBuffer (run step_v2 s es)) \<le> 30"
  by (induction es arbitrary: s) (simp_all add: step_v2_bound)

lemma run_v3_bound:
  "length (tradeBuffer s) \<le> 100 \<Longrightarrow> length (tradeBuffer (run step_v3 s es)) \<le> 100"
  by (induction es arbitrary: s) (simp_all add: step_v3_bound)

text \<open>
  C5. After an insert (by the swap listener or by the external stream) and after a backfill
  merge the history holds at most 30 trades in v1 and v2 and at most 100 in v3, whatever
  it held before; and no event of a run takes a history within its bound beyond it.
\<close>

theorem history_never_exceeds_capacity:
  "length (tradeBuffer (emitNewTrade_v1 t s)) \<le> 30
   \<and> length (tradeBuffer (emitNewTrade_v3 t s)) \<le> 100
   \<and> length (tradeBuffer (transactions_new_v3 now tx s)) \<le> 100
   \<and> length (tradeBuffer (mergeInitial ts s)) \<le> 100
   \<and> (length (tradeBuffer s) \<le> 30 \<longrightarrow> length (tradeBuffer (run step_v1 s es)) \<le> 30)
   \<and> (length (tradeBuffer s) \<le> 30 \<longrightarrow> length (tradeBuffer (run step_v2 s es)) \<le> 30)
   \<and> (length (tradeBuffer s) \<le> 100 \<longrightarrow> length (tradeBuffer (run step_v3 s es)) \<le> 100)"
  by (simp add: run_v1_bound run_v2_bound run_v3_bound)

text \<open>
  The theorem at the empty history, for a run of a buy, a sale and a failed backfill.
\<close>

theorem history_never_exceeds_capacity_witness:
  "length (tradeBuffer (init None)) \<le> 30
   \<and> length (tradeBuffer (run step_v1 (init None)
        [Swap ''t'' None buyArgs, Swap ''t'' None sellArgs, Fetched 0 ''t'' (Inl QueryFailed)]))
       \<le> 30
   \<and> length (tradeBuffer (run step_v3 (init None)
        [Swap ''t'' None buyArgs, Swap ''t'' None sellArgs, Fetched 0 ''t'' (Inl QueryFailed)]))
       \<le> 100"
  using history_never_exceeds_capacity [where s = "init None" and es =
    "[Swap ''t'' None buyArgs, Swap ''t'' None sellArgs, Fetched 0 ''t'' (Inl QueryFailed)]"]
  by (simp add: init_def loadTradesFromFile_def)

section \<open>Insertion\<close>

text \<open>
  C6. \<^verbatim>\<open>emitNewTrade\<close> puts the trade at the front of the history and keeps, behind it and in
  their order, the first 29 (v1, v2) or 99 (v3) trades the history held. In v3 the trade at
  the front is the one passed in with the three display fields \<^verbatim>\<open>emitNewTrade\<close> sets on it.
\<close>

theorem insert_prepends_and_truncates:
  "tradeBuffer (emitNewTrade_v1 t s) = t # take 29 (tradeBuffer s)
   \<and> tradeBuffer (emitNewTrade_v3 t s) =
       t\<lparr>source := Some ''ocicat'', ticker := Some ''OCICAT'', image' := Some ''/cat_bg.jpg''\<rparr>
         # take 99 (tradeBuffer s)"
  by (simp add: take_Cons')

section \<open>The direction of a swap\<close>




section \<open>Zero amounts\<close>

lemma list_all_take: "list_all P xs \<Longrightarrow> list_all P (take n xs)"
  by (auto simp: list_all_iff dest: in_set_takeD)

lemma positive_tagged [simp]:
  "positive (t\<lparr>source := a, ticker := b, image' := c\<rparr>) = positive t"
  by (simp add: positive_def)

lemma swapListener_v1_positive:
  "list_all positive (tradeBuffer s) \<Longrightarrow>
     list_all positive (tradeBuffer (swapListener_v1 now h ev s))"
  by (auto simp: swapListener_v1_def swapTrade_v1_def split: option.splits
           intro!: list_all_take dest: swapTrade_positive)

lemma swapListener_v3_positive:
  "list_all positive (tradeBuffer s) \<Longrightarrow>
     list_all positive (tradeBuffer (swapListener_v3 now h ev s))"
  by (auto simp: swapListener_v3_def swapTrade_v3_def split: option.splits
           intro!: list_all_take dest: swapTrade_positive)

lemma swapTrade_v1_buyArgs: "swapTrade_v1 ''t'' None buyArgs = Some buyTrade"
  by (simp add: swapTrade_v1_def swapTrade_cases buyArgs_def buyTrade_def formatUnits_def)

lemma swapTrade_v3_buyArgs:
  "swapTrade_v3 ''t'' None buyArgs = Some (buyTrade\<lparr>source := Some ''ocicat''\<rparr>)"
  by (simp add: swapTrade_v3_def swapTrade_cases buyArgs_def buyTrade_def formatUnits_def)

text \<open>
  C1, as amended. On the live path no trade with a zero amount enters the history: a trade
  that the decoder produces has both amounts strictly positive, so when every trade of the
  history has, the same is true after the swap listener of any revision has run. The
  external stream of v3 has no such check: it puts the normalised transaction at the front
  of the history whatever its amounts are, and a missing amount is 0.
\<close>

theorem live_path_inserts_only_positive_trades:
  "(case swapTrade src now h ev of None \<Rightarrow> True | Some t \<Rightarrow> positive t)
   \<and> (list_all positive (tradeBuffer s) \<longrightarrow>
        list_all positive (tradeBuffer (swapListener_v1 now h ev s)))
   \<and> (list_all positive (tradeBuffer s) \<longrightarrow>
        list_all positive (tradeBuffer (swapListener_v3 now h ev s)))
   \<and> tradeBuffer (transactions_new_v3 now tx s) = take 100 (externalTrade now tx # tradeBuffer s)
   \<and> amount (externalTrade now tx) = (case amountInToken tx of None \<Rightarrow> 0 | Some a \<Rightarrow> a)
   \<and> bnbAmount (externalTrade now tx) =
        (case amountInChainCurrency tx of None \<Rightarrow> 0 | Some a \<Rightarrow> a)"
  by (simp add: swapListener_v1_positive swapListener_v3_positive externalTrade_def
        swapTrade_positive split: option.splits)

text \<open>The theorem at a history that holds one buy, for a second buy, in v1 and in v3.\<close>

theorem live_path_inserts_only_positive_trades_witness:
  "list_all positive (tradeBuffer (emitNewTrade_v1 buyTrade (init None)))
   \<and> tradeBuffer (swapListener_v1 ''t'' None buyArgs (emitNewTrade_v1 buyTrade (init None)))
       = [buyTrade, buyTrade]
   \<and> list_all positive
        (tradeBuffer (swapListener_v1 ''t'' None buyArgs (emitNewTrade_v1 buyTrade (init None))))
   \<and> list_all positive (tradeBuffer (emitNewTrade_v3 buyTrade (init None)))
   \<and> length (tradeBuffer (swapListener_v3 ''t'' None buyArgs
                (emitNewTrade_v3 buyTrade (init None)))) = 2
   \<and> list_all positive
        (tradeBuffer (swapListener_v3 ''t'' None buyArgs (emitNewTrade_v3 buyTrade (init None))))"
  using live_path_inserts_only_positive_trades
    [where s = "emitNewTrade_v1 buyTrade (init None)" and now = "''t''" and h = None
       and ev = buyArgs]
    live_path_inserts_only_positive_trades
    [where s = "emitNewTrade_v3 buyTrade (init None)" and now = "''t''" and h = None
       and ev = buyArgs]
  by (simp add: init_def loadTradesFromFile_def swapListener_v1_def swapTrade_v1_buyArgs
        swapListener_v3_def swapTrade_v3_buyArgs)
     (simp add: buyTrade_def positive_def)

text \<open>
  The claim as it was stated fails on the external path: from the empty history, one external
  transaction without \<^verbatim>\<open>amountInToken\<close> leaves a trade of amount 0 in the history.
\<close>

theorem external_zero_amount_enters_history:
  "\<not> list_all positive (tradeBuffer (run step_v3 (init None) [TransactionsNew ''t'' txNoAmount]))"
  by (simp add: init_def loadTradesFromFile_def externalTrade_def txNoAmount_def positive_def)

section \<open>What the backfill writes\<close>

text \<open>
  C2. The backfill of v1 and v2 does not decode a log the way the live listener does. For the
  log of a sale it writes a trade with both amounts 0 into the history, where the live
  decoder gives a sale of 5 tokens for 1 BNB.
\<close>

theorem backfill_stores_sale_with_zero_amounts:
  "tradeBuffer (fetchInitialTrades_v1 ''t'' (Inr [sellLog]) (init None)) =
     [\<lparr>hash = ''0xfeed'', time = ''t'', buyer = Some ''0xrouter'', seller = Some ''0xbob'',
       amount = 0, bnbAmount = 0, action = ''sell'', source = None, ticker = None,
       image' = None\<rparr>]
   \<and> swapTrade_v1 ''t'' (Some ''0xfeed'') sellArgs =
     Some \<lparr>hash = ''0xfeed'', time = ''t'', buyer = Some ''0xrouter'', seller = Some ''0xbob'',
       amount = 5, bnbAmount = 1, action = ''sell'', source = None, ticker = None,
       image' = None\<rparr>"
  by (simp add: fetchInitialTrades_v1_def sortLogs_def sellLog_def initialTrade_def sellArgs_def
        formatUnits_def init_def loadTradesFromFile_def swapTrade_v1_def swapTrade_cases)

lemma insertLog_not_Nil [simp]: "insertLog x ys \<noteq> []"
  by (cases ys) simp_all

lemma sortLogs_Cons_not_Nil: "sortLogs (lg # logs) \<noteq> []"
  by (simp add: sortLogs_def)

lemma initialTrade_v3_None: "\<exists>e. initialTrade_v3 None now lg = Inl e"
  by (simp add: initialTrade_v3_def split: option.splits)

text \<open>
  C10. The backfill of v3 merges nothing: as soon as the query returns a log, the callback
  fails on the first one and the history stays as it was. Only for an empty result does the
  function reach its merge, of no trade.
\<close>

theorem backfill_v3_fails_on_any_log:
  "fetchInitialTrades_v3 now (Inr (lg # logs)) s = s
   \<and> fetchInitialTrades_v3 now (Inr []) s = mergeInitial [] s
   \<and> fetchInitialTrades_v3 now (Inl e) s = s"
proof -
  obtain x xs where xs: "take 30 (sortLogs (lg # logs)) = x # xs"
    using sortLogs_Cons_not_Nil[of lg logs] by (cases "sortLogs (lg # logs)") auto
  obtain e' where "initialTrade_v3 None now x = Inl e'"
    using initialTrade_v3_None by blast
  then have "mapE (initialTrade_v3 None now) (take 30 (sortLogs (lg # logs))) = Inl e'"
    by (simp add: xs)
  then have "fetchInitialTrades_v3 now (Inr (lg # logs)) s = s"
    by (simp add: fetchInitialTrades_v3_def)
  then show ?thesis
    by (simp add: fetchInitialTrades_v3_def sortLogs_def)
qed

section \<open>Reconnection\<close>

lemma closeHandlers_step [simp]: "closeHandlers (upstream_step e u) = closeHandlers u"
  by (cases e) (simp_all split: list.splits)

lemma closeHandlers_run: "closeHandlers (upstream_run u es) = closeHandlers u"
  unfolding upstream_run_def by (induction es arbitrary: u) simp_all

text \<open>
  C3. The close of the first websocket sets a timeout of 3000 ms, and when it expires a new
  provider with its listener is in place. The new websocket has no \<^verbatim>\<open>close\<close> handler: in
  every state the server can reach, the close of any provider but the first changes nothing,
  so no further reconnection is attempted.
\<close>

theorem only_first_close_reconnects:
  "timers (upstream_run upstream_init [WsClose 0]) = [3000]
   \<and> upstream_run upstream_init [WsClose 0, TimerFires] =
     \<lparr>provider = 1, constructed = 2, closeHandlers = [0], swapListeners = [0, 1], timers = []\<rparr>
   \<and> upstream_step (WsClose 1) (upstream_run upstream_init [WsClose 0, TimerFires]) =
       upstream_run upstream_init [WsClose 0, TimerFires]
   \<and> upstream_step (WsClose (Suc p)) (upstream_run upstream_init es) =
       upstream_run upstream_init es"
proof -
  have "closeHandlers (upstream_run upstream_init es) = [0]"
    by (simp add: closeHandlers_run) (simp add: upstream_init_def)
  then have "upstream_step (WsClose (Suc p)) (upstream_run upstream_init es) =
       upstream_run upstream_init es"
    by simp
  then show ?thesis
    by (simp add: upstream_run_def upstream_init_def)
qed

section \<open>The debounce of v1\<close>

lemma fetch_v1_proj [simp]:
  "clientLastRequest (fetchInitialTrades_v1 now r s) = clientLastRequest s"
  "sockets (fetchInitialTrades_v1 now r s) = sockets s"
  "sent (fetchInitialTrades_v1 now r s) = sent s"
  "awaiting (fetchInitialTrades_v1 now r s) = awaiting s"
  "transactionStore (fetchInitialTrades_v1 now r s) = transactionStore s"
  by (simp_all add: fetchInitialTrades_v1_def split: sum.splits)

lemma emitNewTrade_v1_proj [simp]:
  "clientLastRequest (emitNewTrade_v1 t s) = clientLastRequest s"
  "sockets (emitNewTrade_v1 t s) = sockets s"
  "awaiting (emitNewTrade_v1 t s) = awaiting s"
  "sent (emitNewTrade_v1 t s) i =
     (if i \<in> set (sockets s) then sent s i @ [(''trades'', OneTrade t)] else sent s i)"
  by (simp_all add: emitNewTrade_v1_def Let_def)

lemma swapListener_v1_proj [simp]:
  "clientLastRequest (swapListener_v1 now h ev s) = clientLastRequest s"
  "sockets (swapListener_v1 now h ev s) = sockets s"
  "awaiting (swapListener_v1 now h ev s) = awaiting s"
  by (simp_all add: swapListener_v1_def split: option.splits)

lemma resume_proj [simp]:
  "clientLastRequest (connection_v1_resume i now r s) = clientLastRequest s"
  "sockets (connection_v1_resume i now r s) = sockets s"
  by (simp_all add: connection_v1_resume_def Let_def)

lemma disconnect_proj [simp]:
  "clientLastRequest (disconnect i s) = clientLastRequest s"
  "tradeBuffer (disconnect i s) = tradeBuffer s"
  "sent (disconnect i s) = sent s"
  "awaiting (disconnect i s) = awaiting s"
  "sockets (disconnect i s) = removeAll i (sockets s)"
  by (simp_all add: disconnect_def)

text \<open>The decision of the handler, read off the state it leaves.\<close>

lemma accepted_connection_v1:
  "accepted socket (connection_v1 socket now s) \<longleftrightarrow>
     \<not> now - (case clientLastRequest s (address socket) of None \<Rightarrow> 0 | Some t \<Rightarrow> t) < 5000"
  by (simp add: accepted_def connection_v1_def Let_def)

lemma registry_connection_v1:
  "clientLastRequest (connection_v1 socket now s) =
     (if accepted socket (connection_v1 socket now s)
      then (clientLastRequest s)(address socket \<mapsto> now) else clientLastRequest s)"
  by (simp add: accepted_connection_v1) (simp add: connection_v1_def Let_def)

lemma rejected_connection_v1:
  assumes "\<not> accepted socket (connection_v1 socket now s)"
  shows "connection_v1 socket now s = s\<lparr>sockets := removeAll (sid socket) (sockets s)\<rparr>"
  using assms by (simp add: accepted_connection_v1) (simp add: connection_v1_def Let_def)

text \<open>The registry is the table of the accepted attaches, the latest of each origin.\<close>

lemma rev_new_attach [simp]: "rev (new_attach s e) = new_attach s e"
  by (cases e) simp_all

lemma registry_step:
  "clientLastRequest (step_v1 e s) = clientLastRequest s ++ map_of (new_attach s e)"
  by (cases e) (simp_all add: registry_connection_v1)

lemma registry_run:
  "clientLastRequest s = map_of (rev A) \<Longrightarrow>
     clientLastRequest (run step_v1 s es) = map_of (rev (A @ accepted_attaches s es))"
proof (induction es arbitrary: s A)
  case Nil
  then show ?case by simp
next
  case (Cons e es)
  have "clientLastRequest (step_v1 e s) = map_of (rev (A @ new_attach s e))"
    using Cons.prems by (simp add: registry_step)
  from Cons.IH[OF this] show ?case by simp
qed

text \<open>No accepted attach of an origin is later than the time the registry holds for it.\<close>

lemma registry_dominates_step:
  assumes "\<And>ip t. (ip, t) \<in> set A \<Longrightarrow> \<exists>tl. clientLastRequest s ip = Some tl \<and> t \<le> tl"
    and "(ip, t) \<in> set (A @ new_attach s e)"
  shows "\<exists>tl. clientLastRequest (step_v1 e s) ip = Some tl \<and> t \<le> tl"
proof (cases "new_attach s e = []")
  case True
  then show ?thesis using assms by (simp add: registry_step)
next
  case False
  then obtain socket now where e: "e = Connection socket now"
      "accepted socket (connection_v1 socket now s)"
    by (cases e) (auto split: if_splits)
  show ?thesis
  proof (cases "(ip, t) \<in> set A")
    case True
    then obtain tl where tl: "clientLastRequest s ip = Some tl" "t \<le> tl"
      using assms(1) by blast
    show ?thesis
    proof (cases "ip = address socket")
      case same: True
      have "tl \<le> now" using e tl same by (simp add: accepted_connection_v1)
      then show ?thesis using e tl same by (simp add: registry_connection_v1)
    next
      case False
      then show ?thesis using e tl by (simp add: registry_connection_v1)
    qed
  next
    case False
    then have "ip = address socket" "t = now" using assms(2) e by auto
    then show ?thesis using e by (simp add: registry_connection_v1)
  qed
qed

lemma registry_dominates:
  "(\<And>ip t. (ip, t) \<in> set A \<Longrightarrow> \<exists>tl. clientLastRequest s ip = Some tl \<and> t \<le> tl) \<Longrightarrow>
   (ip, t) \<in> set (A @ accepted_attaches s es) \<Longrightarrow>
   \<exists>tl. clientLastRequest (run step_v1 s es) ip = Some tl \<and> t \<le> tl"
proof (induction es arbitrary: s A)
  case Nil
  then show ?case by simp
next
  case (Cons e es)
  have dom: "\<exists>tl. clientLastRequest (step_v1 e s) ip' = Some tl \<and> t' \<le> tl"
    if "(ip', t') \<in> set (A @ new_attach s e)" for ip' t'
    using registry_dominates_step[of A s ip' t' e] Cons.prems(1) that by blast
  have "(ip, t) \<in> set ((A @ new_attach s e) @ accepted_attaches (step_v1 e s) es)"
    using Cons.prems(2) by simp
  from Cons.IH[of "A @ new_attach s e", OF dom this] show ?case by simp
qed

lemma init_registry: "clientLastRequest (init file) = map_of (rev [])"
  by (simp add: init_def fun_eq_iff)

lemma rejected_iff_recent:
  assumes "5000 \<le> now"
  shows "(\<not> accepted socket (connection_v1 socket now (run step_v1 (init None) es)))
        = (\<exists>t. (address socket, t) \<in> set (accepted_attaches (init None) es) \<and> now - t < 5000)"
proof -
  let ?A = "accepted_attaches (init None) es"
  let ?s = "run step_v1 (init None) es"
  let ?ip = "address socket"
  have reg: "clientLastRequest ?s = map_of (rev ?A)"
    using registry_run[OF init_registry, of None es] by simp
  have dom: "\<exists>tl. clientLastRequest ?s ?ip = Some tl \<and> t \<le> tl" if "(?ip, t) \<in> set ?A" for t
    using registry_dominates[of "[]" "init None" ?ip t es] that by simp
  show ?thesis
  proof (cases "clientLastRequest ?s ?ip")
    case None
    then have "\<And>t. (?ip, t) \<notin> set ?A" using dom by fastforce
    then show ?thesis using None assms by (simp add: accepted_connection_v1)
  next
    case (Some tl)
    then have "(?ip, tl) \<in> set ?A"
      using reg by (metis map_of_SomeD set_rev)
    then show ?thesis using Some dom by (fastforce simp: accepted_connection_v1)
  qed
qed

lemma rejected_attempts_keep_registry:
  assumes "clientLastRequest s ip = Some t" "list_all (attach_within ip t) es"
  shows "clientLastRequest (run step_v1 s es) = clientLastRequest s"
  using assms
proof (induction es arbitrary: s)
  case Nil
  then show ?case by simp
next
  case (Cons e es)
  then obtain socket now where e: "e = Connection socket now" "address socket = ip"
      "now - t < 5000"
    by (cases e) auto
  have rej: "\<not> accepted socket (connection_v1 socket now s)"
    using e Cons.prems(1) by (simp add: accepted_connection_v1)
  then have same: "clientLastRequest (step_v1 e s) = clientLastRequest s"
    using e by (simp add: registry_connection_v1)
  then have "clientLastRequest (run step_v1 (step_v1 e s) es) = clientLastRequest (step_v1 e s)"
    using Cons.IH[of "step_v1 e s"] Cons.prems by simp
  then show ?case using same by simp
qed

text \<open>
  C9. A rejected attach changes nothing but the set of connected sockets: the registry, the
  history, the messages sent and the suspended handlers are as before. So along every run of
  v1 the registry is the table of the accepted attaches, holding for each origin the time of
  the latest one; and after an accepted attach at time \<open>t\<close>, however many attempts of that
  origin are made (and rejected) before \<open>t + 5000\<close>, the registry still holds \<open>t\<close> and an
  attempt at \<open>t + 5000\<close> or later is accepted.
\<close>

theorem rejected_attach_leaves_registry:
  "(\<not> accepted socket (connection_v1 socket now s) \<longrightarrow>
       clientLastRequest (connection_v1 socket now s) = clientLastRequest s
     \<and> tradeBuffer (connection_v1 socket now s) = tradeBuffer s
     \<and> sent (connection_v1 socket now s) = sent s
     \<and> awaiting (connection_v1 socket now s) = awaiting s)
   \<and> clientLastRequest (run step_v1 (init None) es) =
       map_of (rev (accepted_attaches (init None) es))
   \<and> (clientLastRequest s ip = Some t \<and> list_all (attach_within ip t) es'
        \<and> address socket' = ip \<and> 5000 \<le> now' - t \<longrightarrow>
        clientLastRequest (run step_v1 s es') = clientLastRequest s
        \<and> accepted socket' (connection_v1 socket' now' (run step_v1 s es')))"
proof -
  have "clientLastRequest (run step_v1 (init None) es) =
       map_of (rev (accepted_attaches (init None) es))"
    using registry_run[OF init_registry, of None es] by simp
  moreover have "accepted socket' (connection_v1 socket' now' (run step_v1 s es'))"
    if "clientLastRequest s ip = Some t" "list_all (attach_within ip t) es'"
       "address socket' = ip" "5000 \<le> now' - t"
    using that rejected_attempts_keep_registry[of s ip t es']
    by (simp add: accepted_connection_v1)
  ultimately show ?thesis
    by (auto simp: rejected_connection_v1 rejected_attempts_keep_registry)
qed

text \<open>
  The theorem after an attach accepted at 1000000: the attempt at 1003000 is rejected and
  leaves 1000000 in the registry, and after the two rejected attempts at 1003000 and 1004999
  the one at 1005000 is accepted.
\<close>

theorem rejected_attach_leaves_registry_witness:
  "\<not> accepted sockB (connection_v1 sockB 1003000 (connection_v1 sockA 1000000 (init None)))
   \<and> clientLastRequest (connection_v1 sockB 1003000 (connection_v1 sockA 1000000 (init None)))
       ''10.0.0.1'' = Some 1000000
   \<and> clientLastRequest (connection_v1 sockA 1000000 (init None)) ''10.0.0.1'' = Some 1000000
   \<and> list_all (attach_within ''10.0.0.1'' 1000000)
        [Connection sockB 1003000, Connection sockB 1004999]
   \<and> address sockB = ''10.0.0.1'' \<and> (5000::int) \<le> 1005000 - 1000000
   \<and> accepted sockB (connection_v1 sockB 1005000
        (run step_v1 (connection_v1 sockA 1000000 (init None))
           [Connection sockB 1003000, Connection sockB 1004999]))"
  using rejected_attach_leaves_registry
    [where socket = sockB and now = 1003000 and s = "connection_v1 sockA 1000000 (init None)"
       and ip = "''10.0.0.1''" and t = 1000000 and socket' = sockB and now' = 1005000
       and es' = "[Connection sockB 1003000, Connection sockB 1004999]"]
  by (simp add: accepted_connection_v1 registry_connection_v1 init_def sockA_def sockB_def)

text \<open>
  C7, as amended. In v1, for a clock that reads at least 5000 (any time later than five
  seconds into 1970), an attach is rejected exactly when an attach of the same origin was
  accepted less than 5000 ms before it; a rejected socket is closed and is sent nothing.
  v2 and v3 keep no registry and accept every attach.
\<close>

theorem attach_rejected_iff_recently_accepted:
  "(5000 \<le> now \<longrightarrow>
      (\<not> accepted socket (connection_v1 socket now (run step_v1 (init None) es)))
        = (\<exists>t. (address socket, t) \<in> set (accepted_attaches (init None) es) \<and> now - t < 5000))
   \<and> (\<not> accepted socket (connection_v1 socket now s) \<longrightarrow>
        sent (connection_v1 socket now s) = sent s)
   \<and> accepted socket (connection_v2 socket s)
   \<and> accepted socket (connection_v3 socket s)"
  using rejected_iff_recent[of now socket es]
  by (auto simp: rejected_connection_v1)
     (simp_all add: accepted_def connection_v2_def connection_v3_def Let_def)

text \<open>
  The theorem after an attach accepted at 1000000, for an attempt of the same origin at
  1003000: it is rejected and sent nothing.
\<close>

theorem attach_rejected_iff_recently_accepted_witness:
  "(5000::int) \<le> 1003000
   \<and> \<not> accepted sockB (connection_v1 sockB 1003000
          (run step_v1 (init None) [Connection sockA 1000000]))
   \<and> accepted_attaches (init None) [Connection sockA 1000000] = [(''10.0.0.1'', 1000000)]
   \<and> sent (connection_v1 sockB 1003000 (run step_v1 (init None) [Connection sockA 1000000])) 2
       = []"
  using attach_rejected_iff_recently_accepted
    [where socket = sockB and now = 1003000 and es = "[Connection sockA 1000000]"
       and s = "run step_v1 (init None) [Connection sockA 1000000]"]
  by (simp add: accepted_def init_def sockA_def sockB_def connection_v1_def Let_def
        loadTradesFromFile_def)

text \<open>
  The claim as it was stated fails in v2 and in v3: a second socket of the same origin,
  attaching 1 ms after the first, is accepted and sent the history.
\<close>

theorem attach_within_window_accepted_without_registry:
  "address sockA = address sockB
   \<and> accepted sockB (run step_v2 (init None) [Connection sockA 1000000, Connection sockB 1000001])
   \<and> sent (run step_v2 (init None) [Connection sockA 1000000, Connection sockB 1000001]) 2 =
       [(''transaction:history'', TxList [])]
   \<and> accepted sockB (run step_v3 (init None) [Connection sockA 1000000, Connection sockB 1000001])
   \<and> sent (run step_v3 (init None) [Connection sockA 1000000, Connection sockB 1000001]) 2 =
       [(''transaction:history'', TradeList [])]"
  by (simp add: accepted_def connection_v2_def connection_v3_def init_def sockA_def sockB_def
        loadTradesFromFile_def)

section \<open>The snapshot sent to a new client\<close>

lemma count_list_remove1:
  "count_list (remove1 x xs) y =
     (if x = y \<and> x \<in> set xs then count_list xs y - 1 else count_list xs y)"
  by (induction xs) auto

lemma fetch_v3_proj [simp]:
  "sockets (fetchInitialTrades_v3 now r s) = sockets s"
  "sent (fetchInitialTrades_v3 now r s) = sent s"
  by (simp_all add: fetchInitialTrades_v3_def mergeInitial_def Let_def split: sum.splits)

text \<open>What one event, and then a run, adds to the messages of socket \<open>i\<close>.\<close>

lemma sent_step_v3:
  assumes "not_connection_of i e"
  shows "\<exists>rest. sent (step_v3 e s) i = sent s i @ rest \<and> list_all isLive rest"
proof (cases e)
  case (Swap now h ev)
  then show ?thesis
    by (simp add: swapListener_v3_def emitNewTrade_v3_def Let_def isLive_def split: option.splits)
next
  case (TransactionsNew now tx)
  then show ?thesis by (simp add: transactions_new_v3_def Let_def isLive_def)
next
  case (Connection socket now)
  then show ?thesis using assms by (simp add: connection_v3_def Let_def)
next
  case (Fetched j now r)
  then show ?thesis by simp
next
  case (Disconnect j)
  then show ?thesis by simp
qed

lemma sent_run_v3:
  "list_all (not_connection_of i) es \<Longrightarrow>
   \<exists>rest. sent (run step_v3 s es) i = sent s i @ rest \<and> list_all isLive rest"
proof (induction es arbitrary: s)
  case Nil
  then show ?case by simp
next
  case (Cons e es)
  then obtain r1 where r1: "sent (step_v3 e s) i = sent s i @ r1" "list_all isLive r1"
    using sent_step_v3[of i e s] by auto
  obtain r2 where r2: "sent (run step_v3 (step_v3 e s) es) i = sent (step_v3 e s) i @ r2"
      "list_all isLive r2"
    using Cons.IH[of "step_v3 e s"] Cons.prems by auto
  have "sent (run step_v3 s (e # es)) i = sent s i @ (r1 @ r2) \<and> list_all isLive (r1 @ r2)"
    using r1 r2 by simp
  then show ?case by blast
qed

lemma sent_step_v1:
  assumes "not_connection_of i e" "not_fetched_for i e \<or> i \<notin> set (awaiting s)"
  shows "\<exists>rest. sent (step_v1 e s) i = sent s i @ rest \<and> list_all isLive rest
           \<and> count_list (awaiting (step_v1 e s)) i = count_list (awaiting s) i"
proof (cases e)
  case (Swap now h ev)
  then show ?thesis
    by (simp add: swapListener_v1_def isLive_def split: option.splits)
next
  case (TransactionsNew now tx)
  then show ?thesis by simp
next
  case (Connection socket now)
  then show ?thesis using assms by (simp add: connection_v1_def Let_def)
next
  case (Fetched j now r)
  then show ?thesis using assms
    by (auto simp: connection_v1_resume_def Let_def count_list_remove1)
next
  case (Disconnect j)
  then show ?thesis by simp
qed

lemma sent_run_v1:
  "list_all (not_connection_of i) es \<Longrightarrow>
   list_all (not_fetched_for i) es \<or> i \<notin> set (awaiting s) \<Longrightarrow>
   \<exists>rest. sent (run step_v1 s es) i = sent s i @ rest \<and> list_all isLive rest
      \<and> count_list (awaiting (run step_v1 s es)) i = count_list (awaiting s) i"
proof (induction es arbitrary: s)
  case Nil
  then show ?case by simp
next
  case (Cons e es)
  have e: "not_connection_of i e" "not_fetched_for i e \<or> i \<notin> set (awaiting s)"
    using Cons.prems by auto
  obtain r1 where r1: "sent (step_v1 e s) i = sent s i @ r1" "list_all isLive r1"
      "count_list (awaiting (step_v1 e s)) i = count_list (awaiting s) i"
    using sent_step_v1[OF e] by auto
  have "list_all (not_fetched_for i) es \<or> i \<notin> set (awaiting (step_v1 e s))"
    using Cons.prems(2) r1(3) by (auto simp flip: count_list_0_iff)
  then obtain r2 where r2: "sent (run step_v1 (step_v1 e s) es) i = sent (step_v1 e s) i @ r2"
      "list_all isLive r2"
      "count_list (awaiting (run step_v1 (step_v1 e s) es)) i
         = count_list (awaiting (step_v1 e s)) i"
    using Cons.IH[of "step_v1 e s"] Cons.prems(1) by auto
  have "sent (run step_v1 s (e # es)) i = sent s i @ (r1 @ r2) \<and> list_all isLive (r1 @ r2)
     \<and> count_list (awaiting (run step_v1 s (e # es))) i = count_list (awaiting s) i"
    using r1 r2 by simp
  then show ?case by blast
qed

lemma connection_v3_sent:
  "sent (connection_v3 socket s) (sid socket) =
     sent s (sid socket) @ [(''transaction:history'', TradeList (tradeBuffer s))]"
  by (simp add: connection_v3_def Let_def)

lemma connection_v1_nonempty:
  assumes "accepted socket (connection_v1 socket now s)" "tradeBuffer s \<noteq> []"
  shows "sent (connection_v1 socket now s) (sid socket) =
           sent s (sid socket) @ [(''trades'', TradeList (tradeBuffer s))]"
    and "awaiting (connection_v1 socket now s) = awaiting s"
  using assms by (simp_all add: accepted_connection_v1) (simp_all add: connection_v1_def Let_def)

lemma connection_v1_empty:
  assumes "accepted socket (connection_v1 socket now s)" "tradeBuffer s = []"
  shows "sent (connection_v1 socket now s) = sent s"
    and "awaiting (connection_v1 socket now s) = awaiting s @ [sid socket]"
  using assms by (simp_all add: accepted_connection_v1) (simp_all add: connection_v1_def Let_def)

lemma resume_sent:
  assumes "i \<in> set (awaiting s)" "i \<in> set (sockets s)"
  shows "sent (connection_v1_resume i now r s) i =
           sent s i @ [(''trades'', TradeList (tradeBuffer (connection_v1_resume i now r s)))]"
    and "count_list (awaiting (connection_v1_resume i now r s)) i = count_list (awaiting s) i - 1"
  using assms by (simp_all add: connection_v1_resume_def Let_def count_list_remove1)

text \<open>
  C8, as amended. Take a new socket (nothing sent to it yet, no handler of it suspended) and
  runs \<open>es\<close>, \<open>es'\<close> in which no other connection has its id.
  \<^item> In v3 the first message the socket gets is the snapshot of the whole history at attach,
    and every later message is a live one.
  \<^item> In v1, when the attach is accepted and the history is not empty, the same holds.
  \<^item> In v1, when the attach is accepted and the history is empty, the handler waits for the
    backfill: until that has settled the socket gets live messages only; if it is still
    connected then, it gets the snapshot of the whole history of that moment, once, and live
    messages only afterwards.
\<close>

theorem snapshot_on_attach:
  assumes "sent s (sid socket) = []" and "sid socket \<notin> set (awaiting s)"
    and "list_all (not_connection_of (sid socket)) es"
    and "list_all (not_connection_of (sid socket)) es'"
  shows
   "(\<exists>rest. sent (run step_v3 (connection_v3 socket s) es) (sid socket) =
        (''transaction:history'', TradeList (tradeBuffer s)) # rest \<and> list_all isLive rest)
    \<and> (accepted socket (connection_v1 socket now s) \<and> tradeBuffer s \<noteq> [] \<longrightarrow>
        (\<exists>rest. sent (run step_v1 (connection_v1 socket now s) es) (sid socket) =
           (''trades'', TradeList (tradeBuffer s)) # rest \<and> list_all isLive rest))
    \<and> (accepted socket (connection_v1 socket now s) \<and> tradeBuffer s = []
        \<and> list_all (not_fetched_for (sid socket)) es
        \<and> sid socket \<in> set (sockets (run step_v1 (connection_v1 socket now s) es)) \<longrightarrow>
        (let s1 = run step_v1 (connection_v1 socket now s) es;
             s2 = connection_v1_resume (sid socket) now' r s1
         in list_all isLive (sent s1 (sid socket))
            \<and> (\<exists>rest. sent (run step_v1 s2 es') (sid socket) =
                  sent s1 (sid socket) @ (''trades'', TradeList (tradeBuffer s2)) # rest
                  \<and> list_all isLive rest)))"
proof (intro conjI impI)
  let ?i = "sid socket"
  show "\<exists>rest. sent (run step_v3 (connection_v3 socket s) es) ?i =
        (''transaction:history'', TradeList (tradeBuffer s)) # rest \<and> list_all isLive rest"
    using sent_run_v3[OF assms(3), of "connection_v3 socket s"] assms(1)
    by (auto simp: connection_v3_sent)
next
  let ?i = "sid socket"
  assume a: "accepted socket (connection_v1 socket now s) \<and> tradeBuffer s \<noteq> []"
  then have "?i \<notin> set (awaiting (connection_v1 socket now s))"
    using connection_v1_nonempty(2)[of socket now s] assms(2) by simp
  then show "\<exists>rest. sent (run step_v1 (connection_v1 socket now s) es) ?i =
           (''trades'', TradeList (tradeBuffer s)) # rest \<and> list_all isLive rest"
    using sent_run_v1[OF assms(3), of "connection_v1 socket now s"] a assms(1)
      connection_v1_nonempty(1)[of socket now s]
    by auto
next
  let ?i = "sid socket"
  let ?s0 = "connection_v1 socket now s"
  let ?s1 = "run step_v1 ?s0 es"
  let ?s2 = "connection_v1_resume ?i now' r ?s1"
  assume a: "accepted socket ?s0 \<and> tradeBuffer s = []
        \<and> list_all (not_fetched_for ?i) es \<and> ?i \<in> set (sockets ?s1)"
  have s0: "sent ?s0 ?i = []" "count_list (awaiting ?s0) ?i = 1"
    using a assms(1,2) connection_v1_empty[of socket now s] by simp_all
  obtain r1 where r1: "sent ?s1 ?i = r1" "list_all isLive r1" "count_list (awaiting ?s1) ?i = 1"
    using sent_run_v1[OF assms(3), of ?s0] a s0 by auto
  have "?i \<in> set (awaiting ?s1)"
    using r1(3) count_list_0_iff[of "awaiting ?s1" ?i] by auto
  then have s2: "sent ?s2 ?i = sent ?s1 ?i @ [(''trades'', TradeList (tradeBuffer ?s2))]"
      "count_list (awaiting ?s2) ?i = 0"
    using resume_sent[of ?i ?s1 now' r] a r1(3) by simp_all
  then have "?i \<notin> set (awaiting ?s2)"
    by (simp add: count_list_0_iff)
  then obtain r2 where "sent (run step_v1 ?s2 es') ?i = sent ?s2 ?i @ r2" "list_all isLive r2"
    using sent_run_v1[OF assms(4), of ?s2] by auto
  then show "let s1 = ?s1; s2 = connection_v1_resume ?i now' r s1
         in list_all isLive (sent s1 ?i)
            \<and> (\<exists>rest. sent (run step_v1 s2 es') ?i =
                  sent s1 ?i @ (''trades'', TradeList (tradeBuffer s2)) # rest
                  \<and> list_all isLive rest)"
    using r1 s2 by (simp add: Let_def)
qed

text \<open>
  The theorem for socket 1 and one buy published after it has attached: in v3 on a history of
  one trade, in v1 on a history of one trade, and in v1 on the empty history with a backfill
  whose query fails and a second buy after it.
\<close>

theorem snapshot_on_attach_witness:
  "sent (init None) (sid sockA) = [] \<and> sid sockA \<notin> set (awaiting (init None))
   \<and> list_all (not_connection_of (sid sockA)) [Swap ''t'' None buyArgs]
   \<and> list_all (not_fetched_for (sid sockA)) [Swap ''t'' None buyArgs]
   \<and> sent (run step_v3 (connection_v3 sockA (init (Some [buyTrade]))) [Swap ''t'' None buyArgs]) 1
       = [(''transaction:history'', TradeList [buyTrade]),
          (''trades'', OneTrade (buyTrade\<lparr>source := Some ''ocicat'', ticker := Some ''OCICAT'',
                                          image' := Some ''/cat_bg.jpg''\<rparr>))]
   \<and> accepted sockA (connection_v1 sockA 1000000 (swapListener_v1 ''t'' None buyArgs (init None)))
   \<and> tradeBuffer (swapListener_v1 ''t'' None buyArgs (init None)) \<noteq> []
   \<and> sent (run step_v1 (connection_v1 sockA 1000000 (swapListener_v1 ''t'' None buyArgs (init None)))
        [Swap ''t'' None buyArgs]) 1
       = [(''trades'', TradeList [buyTrade]), (''trades'', OneTrade buyTrade)]
   \<and> accepted sockA (connection_v1 sockA 1000000 (init None))
   \<and> tradeBuffer (init None) = []
   \<and> sid sockA \<in> set (sockets (run step_v1 (connection_v1 sockA 1000000 (init None))
        [Swap ''t'' None buyArgs]))
   \<and> sent (run step_v1 (connection_v1_resume 1 ''t'' (Inl QueryFailed)
              (run step_v1 (connection_v1 sockA 1000000 (init None)) [Swap ''t'' None buyArgs]))
           [Swap ''t'' None buyArgs]) 1
       = [(''trades'', OneTrade buyTrade), (''trades'', TradeList [buyTrade]),
          (''trades'', OneTrade buyTrade)]"
  using snapshot_on_attach [where s = "init (Some [buyTrade])" and socket = sockA
      and es = "[Swap ''t'' None buyArgs]" and es' = "[]"]
    snapshot_on_attach [where s = "swapListener_v1 ''t'' None buyArgs (init None)"
      and socket = sockA and now = 1000000 and es = "[Swap ''t'' None buyArgs]" and es' = "[]"]
    snapshot_on_attach [where s = "init None" and socket = sockA and now = 1000000
      and es = "[Swap ''t'' None buyArgs]" and es' = "[Swap ''t'' None buyArgs]"
      and now' = "''t''" and r = "Inl QueryFailed"]
  by (simp add: init_def loadTradesFromFile_def sockA_def connection_v1_def Let_def accepted_def
        swapListener_v1_def swapTrade_v1_buyArgs emitNewTrade_v1_def io_emit_def
        connection_v1_resume_def fetchInitialTrades_v1_def socket_emit_def
        connection_v3_def swapListener_v3_def swapTrade_v3_buyArgs emitNewTrade_v3_def
        buyTrade_def)

text \<open>
  The claim as it was stated fails in v1: socket 1 attaches while the history is empty, a buy
  is published while its handler waits for the backfill, and the query of the backfill fails.
  The first message the socket gets is the live one, the snapshot comes second.
\<close>

theorem live_message_can_precede_snapshot:
  "sent (run step_v1 (init None)
      [Connection sockA 1000000, Swap ''t'' None buyArgs, Fetched 1 ''t'' (Inl QueryFailed)]) 1
   = [(''trades'', OneTrade buyTrade), (''trades'', TradeList [buyTrade])]"
  by (simp add: init_def loadTradesFromFile_def sockA_def connection_v1_def Let_def
        swapListener_v1_def swapTrade_v1_buyArgs emitNewTrade_v1_def io_emit_def
        connection_v1_resume_def fetchInitialTrades_v1_def socket_emit_def)

end
